theory Spec2Isabelle
  imports Complex_Main "HOL-Library.AList"
begin

section \<open>Python values used by bin/qc.py\<close>

text \<open>
  The exceptions that the modelled part of \<^verbatim>\<open>bin/qc.py\<close> can raise. A function that can
  raise returns \<open>error + 'a\<close>, with \<open>Inl\<close> for the exception.
\<close>

datatype error = KeyError | IndexError | ValueError | ZeroDivisionError | StatisticsError

definition bind :: "error + 'a \<Rightarrow> ('a \<Rightarrow> error + 'b) \<Rightarrow> error + 'b" where
  "bind m f = (case m of Inl e \<Rightarrow> Inl e | Inr x \<Rightarrow> f x)"

text \<open>
  A Python number is an \<^verbatim>\<open>int\<close> or a \<^verbatim>\<open>float\<close>. Floats are modelled by exact
  rationals: the only float operations of the script are one true division and one
  multiplication by 100 (or one division by 2), on integers far below \<open>2 ^ 53\<close>.
\<close>

datatype pynum = PyInt int | PyFloat rat

text \<open>
  A Python \<^verbatim>\<open>dict\<close> keeps its keys in insertion order: an association list with distinct
  keys. \<^verbatim>\<open>d[k] = v\<close> replaces the value of an existing key in place and appends a new key at
  the end, which is \<^const>\<open>AList.update\<close>; \<^verbatim>\<open>d[k]\<close> raises \<^verbatim>\<open>KeyError\<close> on a missing key.
\<close>

type_synonym ('k, 'v) dict = "('k \<times> 'v) list"

definition dict_set :: "'k \<Rightarrow> 'v \<Rightarrow> ('k, 'v) dict \<Rightarrow> ('k, 'v) dict" where
  "dict_set k v d = AList.update k v d"

definition dict_get :: "('k, 'v) dict \<Rightarrow> 'k \<Rightarrow> error + 'v" where
  "dict_get d k = (case map_of d k of None \<Rightarrow> Inl KeyError | Some v \<Rightarrow> Inr v)"

text \<open>\<^verbatim>\<open>a / b\<close> on two ints: true division, \<^verbatim>\<open>ZeroDivisionError\<close> when \<open>b = 0\<close>.\<close>

definition py_truediv :: "int \<Rightarrow> int \<Rightarrow> error + rat" where
  "py_truediv a b = (if b = 0 then Inl ZeroDivisionError else Inr (of_int a / of_int b))"

text \<open>\<^verbatim>\<open>xs[i]\<close> for a non-negative index.\<close>

definition py_index :: "'a list \<Rightarrow> nat \<Rightarrow> error + 'a" where
  "py_index xs i = (if i < length xs then Inr (xs ! i) else Inl IndexError)"

text \<open>\<^verbatim>\<open>s.split(d)\<close> for a one-character separator: one field more than separators.\<close>

fun split_on :: "char \<Rightarrow> string \<Rightarrow> string list" where
  "split_on d [] = [[]]"
| "split_on d (c # cs) =
     (if c = d then [] # split_on d cs
      else (case split_on d cs of [] \<Rightarrow> [[c]] | w # ws \<Rightarrow> (c # w) # ws))"

text \<open>
  \<^verbatim>\<open>min(xs, key=k)\<close> and \<^verbatim>\<open>max(xs, key=k)\<close>: the first element with the least (greatest)
  key, \<^verbatim>\<open>ValueError\<close> on an empty argument.
\<close>

fun py_min_key :: "('a \<Rightarrow> int) \<Rightarrow> 'a list \<Rightarrow> error + 'a" where
  "py_min_key k [] = Inl ValueError"
| "py_min_key k (x # xs) = Inr (fold (\<lambda>y best. if k y < k best then y else best) xs x)"

fun py_max_key :: "('a \<Rightarrow> int) \<Rightarrow> 'a list \<Rightarrow> error + 'a" where
  "py_max_key k [] = Inl ValueError"
| "py_max_key k (x # xs) = Inr (fold (\<lambda>y best. if k best < k y then y else best) xs x)"

text \<open>
  \<^verbatim>\<open>statistics.median\<close>: \<^verbatim>\<open>StatisticsError\<close> on empty data, the middle element of the
  sorted data for an odd count (an int), the mean of the two middle elements for an even
  count (a float).
\<close>

definition statistics_median :: "int list \<Rightarrow> error + pynum" where
  "statistics_median data =
     (let s = sort data; n = length s in
      if n = 0 then Inl StatisticsError
      else if n mod 2 = 1 then Inr (PyInt (s ! (n div 2)))
      else Inr (PyFloat (of_int (s ! (n div 2 - 1) + s ! (n div 2)) / 2)))"

section \<open>Data model\<close>

text \<open>
  One line of the primer BED file after \<^verbatim>\<open>line.strip().split('\t')\<close>, with the two
  coordinate fields already read by \<^verbatim>\<open>int\<close>.
\<close>

record bed_row =
  b_start :: int
  b_end :: int
  b_name :: string
  b_pool :: string
  b_orientation :: string

text \<open>The dictionary that \<^verbatim>\<open>read_primers\<close> stores for each primer.\<close>

record primer =
  p_name :: string
  p_pair_name :: string
  p_start :: int
  p_end :: int
  p_amplicon_number :: string
  p_pool :: string
  p_orientation :: string

text \<open>The dictionary that \<^verbatim>\<open>primers_to_amplicons\<close> stores for each amplicon.\<close>

record amplicon =
  a_number :: string
  a_start :: int
  a_end :: int
  a_length :: int
  a_pool :: string

text \<open>
  One row of \<^verbatim>\<open>samtools depth\<close>: contig, position, depth. The script reads the last two
  with \<^verbatim>\<open>int\<close> at every use; the model carries the integers.
\<close>

record depth_row =
  contig :: string
  pos :: int
  depth :: int

section \<open>Primer/amplicon resolver\<close>

text \<open>The first loop of \<^verbatim>\<open>read_primers\<close>: both directions of every pair.\<close>

fun read_primer_pairs :: "(string \<times> string) list \<Rightarrow> (string, string) dict \<Rightarrow> (string, string) dict" where
  "read_primer_pairs [] primer_pairs = primer_pairs"
| "read_primer_pairs ((left, right) # lines) primer_pairs =
     read_primer_pairs lines (dict_set right left (dict_set left right primer_pairs))"

text \<open>
  The second loop of \<^verbatim>\<open>read_primers\<close>. \<^verbatim>\<open>primer_pairs[name]\<close> raises \<^verbatim>\<open>KeyError\<close> for a
  primer without a pair, and the amplicon number is the field at
  \<^verbatim>\<open>amplicon_number_offset\<close> of the name split at the delimiter (\<^verbatim>\<open>IndexError\<close> when the
  name has too few fields).
\<close>

fun read_primer_bed ::
  "(string, string) dict \<Rightarrow> char \<Rightarrow> nat \<Rightarrow> bed_row list \<Rightarrow> (string, primer) dict
     \<Rightarrow> error + (string, primer) dict" where
  "read_primer_bed primer_pairs delim offset [] primers_by_name = Inr primers_by_name"
| "read_primer_bed primer_pairs delim offset (flds # lines) primers_by_name =
     bind (dict_get primer_pairs (b_name flds)) (\<lambda>pair_name.
     bind (py_index (split_on delim (b_name flds)) offset) (\<lambda>amplicon_number.
       read_primer_bed primer_pairs delim offset lines
         (dict_set (b_name flds)
            \<lparr>p_name = b_name flds, p_pair_name = pair_name,
             p_start = b_start flds, p_end = b_end flds,
             p_amplicon_number = amplicon_number, p_pool = b_pool flds,
             p_orientation = b_orientation flds\<rparr>
            primers_by_name)))"

definition read_primers ::
  "bed_row list \<Rightarrow> (string \<times> string) list \<Rightarrow> char \<Rightarrow> nat \<Rightarrow> error + (string, primer) dict" where
  "read_primers primer_bed primer_pairs primer_name_delimiter amplicon_number_offset =
     read_primer_bed (read_primer_pairs primer_pairs []) primer_name_delimiter
       amplicon_number_offset primer_bed []"

text \<open>
  \<^verbatim>\<open>[primers[p] for p in primers if primers[p]['orientation'] == '+']\<close>: iterating a dict
  and indexing it with its own key visits the stored values in insertion order.
\<close>

definition positive_orientation_primers :: "(string, primer) dict \<Rightarrow> primer list" where
  "positive_orientation_primers primers = filter (\<lambda>p. p_orientation p = ''+'') (map snd primers)"

text \<open>The loop of \<^verbatim>\<open>primers_to_amplicons\<close>, with the dict \<^verbatim>\<open>amplicons\<close> as accumulator.\<close>

fun amplicons_loop ::
  "(string, primer) dict \<Rightarrow> primer list \<Rightarrow> (string, amplicon) dict \<Rightarrow> error + (string, amplicon) dict" where
  "amplicons_loop primers [] amplicons = Inr amplicons"
| "amplicons_loop primers (primer # rest) amplicons =
     bind (dict_get primers (p_pair_name primer)) (\<lambda>pair.
       amplicons_loop primers rest
         (dict_set (p_amplicon_number primer)
            \<lparr>a_number = p_amplicon_number primer, a_start = p_end primer,
             a_end = p_start pair, a_length = p_start pair - p_end primer,
             a_pool = p_pool primer\<rparr>
            amplicons))"

definition primers_to_amplicons :: "(string, primer) dict \<Rightarrow> error + (string, amplicon) dict" where
  "primers_to_amplicons primers =
     amplicons_loop primers (positive_orientation_primers primers) []"

section \<open>Coverage aggregator\<close>

definition get_covered_pos :: "depth_row list \<Rightarrow> int \<Rightarrow> int" where
  "get_covered_pos pos_depth min_depth =
     fold (\<lambda>r counter. if min_depth \<le> depth r then counter + 1 else counter) pos_depth 0"

definition get_amplicon_covered_pos :: "depth_row list \<Rightarrow> int \<Rightarrow> int \<Rightarrow> int \<Rightarrow> int \<times> int" where
  "get_amplicon_covered_pos pos_depth min_depth lowest_amplicon_start highest_amplicon_end =
     (let amplicon_length = highest_amplicon_end - lowest_amplicon_start;
          counter = fold (\<lambda>r counter.
                      if lowest_amplicon_start \<le> pos r \<and> pos r \<le> highest_amplicon_end
                         \<and> min_depth \<le> depth r
                      then counter + 1 else counter) pos_depth 0
      in (counter, amplicon_length))"

definition get_median_depth :: "depth_row list \<Rightarrow> error + pynum" where
  "get_median_depth depth_pos =
     (if length depth_pos > 0 then statistics_median (map depth depth_pos)
      else Inr (PyInt 0))"

definition calculate_amplicon_median_depth :: "depth_row list \<Rightarrow> int \<Rightarrow> int \<Rightarrow> error + pynum" where
  "calculate_amplicon_median_depth depth_pos amplicon_start amplicon_end =
     (if length depth_pos > 0
      then statistics_median
             (map depth (filter (\<lambda>r. amplicon_start \<le> pos r \<and> pos r \<le> amplicon_end) depth_pos))
      else Inr (PyInt 0))"

section \<open>Ambiguity analyzer\<close>

text \<open>
  \<^verbatim>\<open>fasta.seq.lower()\<close> followed by \<^verbatim>\<open>letter == 'n'\<close>: the letter is \<open>n\<close> or \<open>N\<close>.
\<close>

definition is_N :: "char \<Rightarrow> bool" where
  "is_N letter = (letter = CHR ''n'' \<or> letter = CHR ''N'')"

definition get_N_positions :: "string \<Rightarrow> int list" where
  "get_N_positions seq =
     map (\<lambda>(i, letter). int i) (filter (\<lambda>(i, letter). is_N letter) (enumerate 0 seq))"

definition get_pct_N_bases :: "string \<Rightarrow> error + rat" where
  "get_pct_N_bases seq =
     bind (py_truediv (int (length (get_N_positions seq))) (int (length seq)))
       (\<lambda>q. Inr (q * 100))"

text \<open>
  \<^verbatim>\<open>sorted(n_gaps)[-1]\<close> is the last element of the sorted list, \<^verbatim>\<open>IndexError\<close> if there
  is none.
\<close>

definition get_largest_N_gap :: "string \<Rightarrow> error + int" where
  "get_largest_N_gap seq =
     (let n_pos = [0] @ get_N_positions seq @ [int (length seq)];
          n_gaps = map (\<lambda>(i, j). j - i) (zip (butlast n_pos) (tl n_pos))
      in if n_gaps = [] then Inl IndexError else Inr (last (sort n_gaps)))"

section \<open>Metrics composer\<close>

text \<open>
  What one run reads: the command-line arguments (\<open>arg_\<close>), the parsed lines of the two
  primer tables, and what the external collaborators return (\<open>ext_\<close>):
  \<^verbatim>\<open>get_ref_length(args.ref)\<close>, \<^verbatim>\<open>read_depth_file(args.bam)\<close>, \<^verbatim>\<open>get_num_reads(args.bam)\<close> and
  the sequence of \<^verbatim>\<open>SeqIO.read(args.fasta, "fasta")\<close>.
\<close>

record run_input =
  arg_sample :: string
  arg_fasta :: string
  arg_bam :: string
  arg_min_depth :: int
  primer_bed_rows :: "bed_row list"
  primer_pairs_rows :: "(string \<times> string) list"
  ext_ref_length :: int
  ext_depth_pos :: "depth_row list"
  ext_num_reads :: string
  ext_fasta_seq :: string

text \<open>
  \<^verbatim>\<open>"{:.2f}".format(x)\<close> writes the decimal with two fractional digits that is nearest to
  \<open>x\<close>, a tie going to the even last digit. \<open>format_2f x\<close> is the number that this text
  denotes (the sign of a zero is not kept), computed on the exact value of \<open>x\<close>.
\<close>

definition round_half_even :: "rat \<Rightarrow> int" where
  "round_half_even y =
     (let f = \<lfloor>y\<rfloor> in
      if y - of_int f < 1 / 2 then f
      else if 1 / 2 < y - of_int f then f + 1
      else if even f then f else f + 1)"

definition format_2f :: "rat \<Rightarrow> rat" where
  "format_2f x = of_int (round_half_even (x * 100)) / 100"

text \<open>
  A value of the QC record: a text, a number, or \<open>Fixed2 v\<close> for a two-decimal text that
  denotes \<open>v\<close>.
\<close>

datatype cell = Str string | Num pynum | Fixed2 rat

text \<open>The loop over \<^verbatim>\<open>amplicons.items()\<close> that fills \<^verbatim>\<open>amplicon_average_depths\<close>.\<close>

fun amplicon_depths_loop ::
  "depth_row list \<Rightarrow> (string \<times> amplicon) list \<Rightarrow> (string, pynum) dict \<Rightarrow> error + (string, pynum) dict" where
  "amplicon_depths_loop depth_pos [] amplicon_average_depths = Inr amplicon_average_depths"
| "amplicon_depths_loop depth_pos ((amplicon_num, amplicon_info) # rest) amplicon_average_depths =
     bind (calculate_amplicon_median_depth depth_pos (a_start amplicon_info) (a_end amplicon_info))
       (\<lambda>average_depth.
          amplicon_depths_loop depth_pos rest
            (dict_set amplicon_num average_depth amplicon_average_depths))"

text \<open>The loop that adds one field per amplicon to \<^verbatim>\<open>qc_line\<close>.\<close>

fun add_amplicon_fields :: "(string \<times> pynum) list \<Rightarrow> (string, cell) dict \<Rightarrow> (string, cell) dict" where
  "add_amplicon_fields [] qc_line = qc_line"
| "add_amplicon_fields ((amplicon_num, avg_depth) # rest) qc_line =
     add_amplicon_fields rest
       (dict_set (''amplicon_'' @ amplicon_num @ ''_median_depth'') (Num avg_depth) qc_line)"

text \<open>
  The region that \<^verbatim>\<open>main\<close> passes to \<^verbatim>\<open>get_amplicon_covered_pos\<close>:
  \<^verbatim>\<open>min(primers.values(), key=lambda x: x['start'])['start']\<close> and
  \<^verbatim>\<open>max(primers.values(), key=lambda x: x['end'])['end']\<close>.
\<close>

definition amplicon_region :: "(string, primer) dict \<Rightarrow> error + int \<times> int" where
  "amplicon_region primers =
     bind (py_min_key p_start (map snd primers)) (\<lambda>lo.
     bind (py_max_key p_end (map snd primers)) (\<lambda>hi.
       Inr (p_start lo, p_end hi)))"

text \<open>
  The guarded block of \<^verbatim>\<open>main\<close> for the unknown bases: both metrics start at 0 and are
  computed only for a sequence of non-zero length.
\<close>

definition unknown_base_calcs :: "string \<Rightarrow> error + rat \<times> int" where
  "unknown_base_calcs seq =
     (if length seq \<noteq> 0
      then bind (get_pct_N_bases seq) (\<lambda>pct_N_bases.
           bind (get_largest_N_gap seq) (\<lambda>largest_N_gap.
             Inr (pct_N_bases, largest_N_gap)))
      else Inr (0, 0))"

text \<open>
  \<^verbatim>\<open>main\<close> up to the composed \<^verbatim>\<open>qc_line\<close>, in the order of the source. The header and the
  row that the CSV writer emits are the keys and the values of the result; the plot that
  follows is not modelled.
\<close>

definition main :: "run_input \<Rightarrow> error + (string, cell) dict" where
  "main args =
     bind (read_primers (primer_bed_rows args) (primer_pairs_rows args) CHR ''_'' 2) (\<lambda>primers.
     bind (primers_to_amplicons primers) (\<lambda>amplicons.
     bind (amplicon_region primers) (\<lambda>(lowest_amplicon_start, highest_amplicon_end).
     bind (py_truediv (get_covered_pos (ext_depth_pos args) (arg_min_depth args)) (ext_ref_length args))
       (\<lambda>covered_fraction.
     bind (get_median_depth (ext_depth_pos args)) (\<lambda>depth_coverage.
     bind (case get_amplicon_covered_pos (ext_depth_pos args) (arg_min_depth args)
                 lowest_amplicon_start highest_amplicon_end of
             (depth_amplicon_covered_bases, amplicon_length) \<Rightarrow>
               py_truediv depth_amplicon_covered_bases amplicon_length)
       (\<lambda>amplicon_covered_fraction.
     bind (unknown_base_calcs (ext_fasta_seq args)) (\<lambda>(pct_N_bases, largest_N_gap).
     bind (amplicon_depths_loop (ext_depth_pos args) amplicons []) (\<lambda>amplicon_average_depths.
       Inr (add_amplicon_fields amplicon_average_depths
             [(''sample_name'', Str (arg_sample args)),
              (''pct_N_bases'', Fixed2 (format_2f pct_N_bases)),
              (''pct_covered_bases'', Fixed2 (format_2f (covered_fraction * 100))),
              (''pct_amplicon_covered_bases'', Fixed2 (format_2f (amplicon_covered_fraction * 100))),
              (''longest_no_N_run'', Num (PyInt largest_N_gap)),
              (''num_aligned_reads'', Str (ext_num_reads args)),
              (''median_depth_coverage'', Num depth_coverage),
              (''fasta'', Str (arg_fasta args)),
              (''bam'', Str (arg_bam args))])))))))))"

section \<open>The region of the specification, and example inputs\<close>

text \<open>
  The region as the specification words it: from the lowest amplicon start to the highest
  amplicon end across all resolved amplicons. It is compared with \<^const>\<open>amplicon_region\<close>,
  the region that \<^verbatim>\<open>main\<close> computes.
\<close>

definition amplicon_span_spec :: "(string, amplicon) dict \<Rightarrow> int \<times> int" where
  "amplicon_span_spec amplicons =
     (Min (set (map (a_start \<circ> snd) amplicons)), Max (set (map (a_end \<circ> snd) amplicons)))"

text \<open>
  The two-amplicon primer scheme of the round-trip scenario: pool 1 with primers at 10--40
  and 360--390, pool 2 with primers at 200--230 and 550--580.
\<close>

definition round_trip_bed :: "bed_row list" where
  "round_trip_bed =
     [\<lparr>b_start = 10, b_end = 40, b_name = ''rsva_v1_1_LEFT'', b_pool = ''1'', b_orientation = ''+''\<rparr>,
      \<lparr>b_start = 360, b_end = 390, b_name = ''rsva_v1_1_RIGHT'', b_pool = ''1'', b_orientation = ''-''\<rparr>,
      \<lparr>b_start = 200, b_end = 230, b_name = ''rsva_v1_2_LEFT'', b_pool = ''2'', b_orientation = ''+''\<rparr>,
      \<lparr>b_start = 550, b_end = 580, b_name = ''rsva_v1_2_RIGHT'', b_pool = ''2'', b_orientation = ''-''\<rparr>]"

definition round_trip_pairs :: "(string \<times> string) list" where
  "round_trip_pairs =
     [(''rsva_v1_1_LEFT'', ''rsva_v1_1_RIGHT''), (''rsva_v1_2_LEFT'', ''rsva_v1_2_RIGHT'')]"

definition round_trip_primers :: "(string, primer) dict" where
  "round_trip_primers =
     [(''rsva_v1_1_LEFT'',
       \<lparr>p_name = ''rsva_v1_1_LEFT'', p_pair_name = ''rsva_v1_1_RIGHT'', p_start = 10, p_end = 40,
        p_amplicon_number = ''1'', p_pool = ''1'', p_orientation = ''+''\<rparr>),
      (''rsva_v1_1_RIGHT'',
       \<lparr>p_name = ''rsva_v1_1_RIGHT'', p_pair_name = ''rsva_v1_1_LEFT'', p_start = 360, p_end = 390,
        p_amplicon_number = ''1'', p_pool = ''1'', p_orientation = ''-''\<rparr>),
      (''rsva_v1_2_LEFT'',
       \<lparr>p_name = ''rsva_v1_2_LEFT'', p_pair_name = ''rsva_v1_2_RIGHT'', p_start = 200, p_end = 230,
        p_amplicon_number = ''2'', p_pool = ''2'', p_orientation = ''+''\<rparr>),
      (''rsva_v1_2_RIGHT'',
       \<lparr>p_name = ''rsva_v1_2_RIGHT'', p_pair_name = ''rsva_v1_2_LEFT'', p_start = 550, p_end = 580,
        p_amplicon_number = ''2'', p_pool = ''2'', p_orientation = ''-''\<rparr>)]"



text \<open>
  The fixed-length series as the specification words it: one row for every position of
  \<open>[1, reference_length]\<close>, with depth 0 at a position that the input does not enumerate.
  The aggregation functions of the script are compared with their values on it.
\<close>

definition fixed_length_series :: "int \<Rightarrow> depth_row list \<Rightarrow> depth_row list" where
  "fixed_length_series reference_length rows =
     map (\<lambda>p. case find (\<lambda>r. pos r = p) rows of
                 None \<Rightarrow> \<lparr>contig = [], pos = p, depth = 0\<rparr>
               | Some r \<Rightarrow> r)
       [1..reference_length]"

text \<open>A depth input for a reference of length 3 that enumerates position 2 only.\<close>

definition sparse_rows :: "depth_row list" where
  "sparse_rows = [\<lparr>contig = ''ref'', pos = 2, depth = 20\<rparr>]"

text \<open>
  A complete run on a reference of length 6: one amplicon with primers at 1--2 and 4--5,
  depth 50 at every position, and a consensus with one N.
\<close>

definition small_run :: run_input where
  "small_run =
     \<lparr>arg_sample = ''s1'', arg_fasta = ''s1.consensus.fa'', arg_bam = ''s1.bam'', arg_min_depth = 10,
      primer_bed_rows =
        [\<lparr>b_start = 1, b_end = 2, b_name = ''rsva_v1_1_LEFT'', b_pool = ''1'', b_orientation = ''+''\<rparr>,
         \<lparr>b_start = 4, b_end = 5, b_name = ''rsva_v1_1_RIGHT'', b_pool = ''1'', b_orientation = ''-''\<rparr>],
      primer_pairs_rows = [(''rsva_v1_1_LEFT'', ''rsva_v1_1_RIGHT'')],
      ext_ref_length = 6,
      ext_depth_pos =
        [\<lparr>contig = ''ref'', pos = 1, depth = 50\<rparr>, \<lparr>contig = ''ref'', pos = 2, depth = 50\<rparr>,
         \<lparr>contig = ''ref'', pos = 3, depth = 50\<rparr>, \<lparr>contig = ''ref'', pos = 4, depth = 50\<rparr>,
         \<lparr>contig = ''ref'', pos = 5, depth = 50\<rparr>, \<lparr>contig = ''ref'', pos = 6, depth = 50\<rparr>],
      ext_num_reads = ''1000'',
      ext_fasta_seq = ''ACGTNA''\<rparr>"


definition small_run_qc_line :: "(string, cell) dict" where
  "small_run_qc_line =
     [(''sample_name'', Str ''s1''), (''pct_N_bases'', Fixed2 (1667 / 100)),
      (''pct_covered_bases'', Fixed2 100),
      (''pct_amplicon_covered_bases'', Fixed2 125),
      (''longest_no_N_run'', Num (PyInt 4)),
      (''num_aligned_reads'', Str ''1000''),
      (''median_depth_coverage'', Num (PyFloat 50)),
      (''fasta'', Str ''s1.consensus.fa''), (''bam'', Str ''s1.bam''),
      (''amplicon_1_median_depth'', Num (PyInt 50))]"





section \<open>Basic facts\<close>

lemma bind_Inr_iff: "bind m f = Inr y \<longleftrightarrow> (\<exists>x. m = Inr x \<and> f x = Inr y)"
  by (cases m) (simp_all add: bind_def)

lemma map_of_dict_set: "map_of (dict_set k v d) k' = (if k' = k then Some v else map_of d k')"
  by (simp add: dict_set_def update_conv')

lemma keys_dict_set: "fst ` set (dict_set k v d) = insert k (fst ` set d)"
  by (simp add: dict_set_def dom_update)


lemma covered_fold:
  "fold (\<lambda>r counter. if P r then counter + 1 else counter) rows (c::int)
     = c + int (length (filter P rows))"
  by (induction rows arbitrary: c) simp_all

lemma get_covered_pos_filter:
  "get_covered_pos pos_depth m = int (length (filter (\<lambda>r. m \<le> depth r) pos_depth))"
  by (simp add: get_covered_pos_def covered_fold)


lemma length_filter_mono:
  "(\<And>x. x \<in> set xs \<Longrightarrow> P x \<Longrightarrow> Q x) \<Longrightarrow> length (filter P xs) \<le> length (filter Q xs)"
  by (induction xs) auto

section \<open>The resolver\<close>

lemma read_primers_round_trip:
  "read_primers round_trip_bed round_trip_pairs CHR ''_'' 2 = Inr round_trip_primers"
  by (simp add: read_primers_def round_trip_bed_def round_trip_pairs_def round_trip_primers_def
      bind_def dict_set_def dict_get_def py_index_def)

text \<open>
  C2 (as amended). For the round-trip primer input the resolver produces exactly two
  amplicons, numbered 1 and 2; each starts at its forward primer's end (40, 230), ends at
  its reverse primer's start (360, 550), and has length 320.
\<close>

theorem round_trip_amplicons:
  "primers_to_amplicons round_trip_primers =
     Inr [(''1'', \<lparr>a_number = ''1'', a_start = 40, a_end = 360, a_length = 320, a_pool = ''1''\<rparr>),
          (''2'', \<lparr>a_number = ''2'', a_start = 230, a_end = 550, a_length = 320, a_pool = ''2''\<rparr>)]"
  by (simp add: primers_to_amplicons_def positive_orientation_primers_def round_trip_primers_def
      bind_def dict_set_def dict_get_def)

text \<open>
  C2 as stated fails: the lengths of the two amplicons are not 350 and 350.
\<close>

theorem round_trip_lengths_not_350:
  "map_sum id (map (a_length \<circ> snd)) (primers_to_amplicons round_trip_primers) \<noteq> Inr [350, 350]"
  by (simp add: primers_to_amplicons_def positive_orientation_primers_def round_trip_primers_def
      bind_def dict_set_def dict_get_def)








lemma Min_insert_min:
  "finite S \<Longrightarrow> Min (insert (min a b) S) = Min (insert (a::int) (insert b S))"
  by (cases "S = {}") (simp_all add: min.assoc)

lemma Max_insert_max:
  "finite S \<Longrightarrow> Max (insert (max a b) S) = Max (insert (a::int) (insert b S))"
  by (cases "S = {}") (simp_all add: max.assoc)

lemma fold_min_key:
  "(k::'a \<Rightarrow> int) (fold (\<lambda>y best. if k y < k best then y else best) xs x)
     = Min (insert (k x) (k ` set xs))"
proof (induction xs arbitrary: x)
  case Nil
  show ?case by simp
next
  case (Cons y ys)
  have "k (if k y < k x then y else x) = min (k x) (k y)"
    by (auto simp: min_def)
  then show ?case
    by (simp add: Cons.IH Min_insert_min del: Min_insert)
qed

lemma fold_max_key:
  "(k::'a \<Rightarrow> int) (fold (\<lambda>y best. if k best < k y then y else best) xs x)
     = Max (insert (k x) (k ` set xs))"
proof (induction xs arbitrary: x)
  case Nil
  show ?case by simp
next
  case (Cons y ys)
  have "k (if k x < k y then y else x) = max (k x) (k y)"
    by (auto simp: max_def)
  then show ?case
    by (simp add: Cons.IH Max_insert_max del: Max_insert)
qed

text \<open>
  C5 (as amended). For every non-empty primer set, the region that \<^verbatim>\<open>main\<close> uses for the
  amplicon-region covered-base count and its denominator spans from the lowest start
  coordinate to the highest end coordinate over all primers, of both orientations.
\<close>

theorem region_is_primer_span:
  assumes "primers \<noteq> []"
  shows "amplicon_region primers =
           Inr (Min (p_start ` snd ` set primers), Max (p_end ` snd ` set primers))"
proof -
  from assms obtain e es where "map snd primers = e # es"
    by (cases primers) auto
  moreover have "snd ` set primers = set (map snd primers)" by simp
  ultimately show ?thesis
    by (simp add: amplicon_region_def bind_def fold_min_key fold_max_key del: set_map)
qed

theorem region_is_primer_span_witness:
  "round_trip_primers \<noteq> []
   \<and> amplicon_region round_trip_primers =
       Inr (Min (p_start ` snd ` set round_trip_primers), Max (p_end ` snd ` set round_trip_primers))
   \<and> Min (p_start ` snd ` set round_trip_primers) = 10
   \<and> Max (p_end ` snd ` set round_trip_primers) = 580"
proof -
  have ne: "round_trip_primers \<noteq> []"
    by (simp add: round_trip_primers_def)
  from region_is_primer_span [OF ne] ne show ?thesis
    by (simp add: round_trip_primers_def)
qed

text \<open>
  C5 as stated fails: on the round-trip primers the region of \<^verbatim>\<open>main\<close> is 10 to 580, while
  the lowest amplicon start is 40 and the highest amplicon end is 550.
\<close>

theorem region_is_not_amplicon_span:
  "amplicon_region round_trip_primers = Inr (10, 580)
   \<and> map_sum id amplicon_span_spec (primers_to_amplicons round_trip_primers) = Inr (40, 550)"
  by (simp add: amplicon_region_def amplicon_span_spec_def primers_to_amplicons_def
      positive_orientation_primers_def round_trip_primers_def bind_def dict_set_def dict_get_def)

section \<open>The coverage aggregator\<close>

text \<open>
  C8. For every depth series and thresholds \<open>d1 \<le> d2\<close>, the genome-wide covered-base
  count at \<open>d1\<close> is at least the count at \<open>d2\<close>.
\<close>

theorem covered_pos_antimono:
  assumes "d1 \<le> d2"
  shows "get_covered_pos pos_depth d2 \<le> get_covered_pos pos_depth d1"
proof -
  have "length (filter (\<lambda>r. d2 \<le> depth r) pos_depth)
          \<le> length (filter (\<lambda>r. d1 \<le> depth r) pos_depth)"
    using assms by (intro length_filter_mono) simp
  then show ?thesis
    by (simp add: get_covered_pos_filter)
qed

theorem covered_pos_antimono_witness:
  "(5::int) \<le> 10
   \<and> get_covered_pos [\<lparr>contig = ''c'', pos = 1, depth = 7\<rparr>, \<lparr>contig = ''c'', pos = 2, depth = 12\<rparr>] 10
     \<le> get_covered_pos [\<lparr>contig = ''c'', pos = 1, depth = 7\<rparr>, \<lparr>contig = ''c'', pos = 2, depth = 12\<rparr>] 5
   \<and> get_covered_pos [\<lparr>contig = ''c'', pos = 1, depth = 7\<rparr>, \<lparr>contig = ''c'', pos = 2, depth = 12\<rparr>] 10 = 1
   \<and> get_covered_pos [\<lparr>contig = ''c'', pos = 1, depth = 7\<rparr>, \<lparr>contig = ''c'', pos = 2, depth = 12\<rparr>] 5 = 2"
  using covered_pos_antimono [of 5 10
      "[\<lparr>contig = ''c'', pos = 1, depth = 7\<rparr>, \<lparr>contig = ''c'', pos = 2, depth = 12\<rparr>]"]
  by (simp add: get_covered_pos_def)

lemma amplicon_median_depth_raises:
  assumes "depth_pos \<noteq> []"
    and "\<forall>r \<in> set depth_pos. \<not> (amplicon_start \<le> pos r \<and> pos r \<le> amplicon_end)"
  shows "calculate_amplicon_median_depth depth_pos amplicon_start amplicon_end = Inl StatisticsError"
proof -
  have "filter (\<lambda>r. amplicon_start \<le> pos r \<and> pos r \<le> amplicon_end) depth_pos = []"
    using assms(2) by (simp add: filter_empty_conv)
  with assms(1) show ?thesis
    by (simp add: calculate_amplicon_median_depth_def statistics_median_def)
qed

text \<open>
  C3. The claim asks for 0 when no row of a non-empty depth series lies in the amplicon.
  The code guards the length of the whole series, not of the rows within the amplicon, so
  the median of an empty list is taken and \<^verbatim>\<open>statistics.median\<close> raises
  (\<open>amplicon_median_depth_raises\<close>); here on the one-row series with position 1 and the
  amplicon 10 to 20.
\<close>

theorem amplicon_median_depth_no_overlap_raises:
  "calculate_amplicon_median_depth [\<lparr>contig = ''c'', pos = 1, depth = 5\<rparr>] 10 20
     = Inl StatisticsError"
  by (simp add: calculate_amplicon_median_depth_def statistics_median_def)

lemma find_pos_unique:
  assumes "distinct (map pos rows)" "r \<in> set rows"
  shows "find (\<lambda>x. pos x = pos r) rows = Some r"
  using assms
proof (induction rows)
  case Nil
  then show ?case by simp
next
  case (Cons a rows)
  then show ?case by (auto simp: image_iff)
qed

text \<open>
  C4 (as amended). The aggregation functions work on the enumerated rows as they are;
  nothing materializes a fixed-length series. For an input that enumerates each position
  at most once, all within \<open>[1, reference_length]\<close>, and a threshold \<open>min_depth > 0\<close>, the
  genome-wide covered-base count equals the count on the fixed-length series (a missing
  position, at depth 0, is not covered). The medians are taken over the enumerated rows
  only.
\<close>

theorem covered_pos_materialized:
  assumes dist: "distinct (map pos rows)"
    and range: "\<forall>r \<in> set rows. 1 \<le> pos r \<and> pos r \<le> reference_length"
    and m: "0 < min_depth"
  shows "get_covered_pos rows min_depth
           = get_covered_pos (fixed_length_series reference_length rows) min_depth"
proof -
  let ?mat = "\<lambda>p. case find (\<lambda>r. pos r = p) rows of
                 None \<Rightarrow> \<lparr>contig = [], pos = p, depth = 0\<rparr> | Some r \<Rightarrow> r"
  let ?A = "filter (\<lambda>r. min_depth \<le> depth r) rows"
  let ?B = "filter (\<lambda>p. min_depth \<le> depth (?mat p)) [1..reference_length]"
  have dA: "distinct (map pos ?A)"
    using dist by (rule distinct_map_filter)
  have dB: "distinct ?B" by simp
  have "set (map pos ?A) = set ?B"
  proof (intro set_eqI iffI)
    fix p assume "p \<in> set (map pos ?A)"
    then obtain r where r: "r \<in> set rows" "min_depth \<le> depth r" "pos r = p" by auto
    with find_pos_unique [OF dist r(1)] range show "p \<in> set ?B" by auto
  next
    fix p assume p: "p \<in> set ?B"
    with m obtain r where "find (\<lambda>r. pos r = p) rows = Some r" "min_depth \<le> depth r"
      by (auto split: option.splits)
    then have "r \<in> set rows" "pos r = p" "min_depth \<le> depth r"
      by (auto simp: find_Some_iff)
    then show "p \<in> set (map pos ?A)" by force
  qed
  then have "card (set (map pos ?A)) = card (set ?B)" by simp
  then have "length ?A = length ?B"
    using dA dB by (simp only: distinct_card length_map)
  then show ?thesis
    by (simp add: get_covered_pos_filter fixed_length_series_def filter_map comp_def)
qed

lemma upto_1_3: "[1..3] = [1, 2, 3::int]"
  by (simp add: upto.simps)

theorem covered_pos_materialized_witness:
  "distinct (map pos sparse_rows) \<and> (0::int) < 10
   \<and> get_covered_pos sparse_rows 10 = get_covered_pos (fixed_length_series 3 sparse_rows) 10
   \<and> get_covered_pos sparse_rows 10 = 1"
proof -
  have d: "distinct (map pos sparse_rows)"
    by (simp add: sparse_rows_def)
  have r: "\<forall>r \<in> set sparse_rows. 1 \<le> pos r \<and> pos r \<le> 3"
    by (simp add: sparse_rows_def)
  have m: "(0::int) < 10" by simp
  from covered_pos_materialized [OF d r m] d show ?thesis
    by (simp add: sparse_rows_def get_covered_pos_def)
qed

text \<open>
  C4 as stated fails. On the input that enumerates only position 2 (depth 20) of a
  reference of length 3, the covered-base count at threshold 0, the genome-wide median
  and the median of the amplicon 1 to 3 all differ from their values on the fixed-length
  series (depths 0, 20, 0).
\<close>

theorem aggregation_not_normalized:
  "get_covered_pos sparse_rows 0 \<noteq> get_covered_pos (fixed_length_series 3 sparse_rows) 0
   \<and> get_median_depth sparse_rows \<noteq> get_median_depth (fixed_length_series 3 sparse_rows)
   \<and> calculate_amplicon_median_depth sparse_rows 1 3
       \<noteq> calculate_amplicon_median_depth (fixed_length_series 3 sparse_rows) 1 3"
  by (simp add: upto_1_3 fixed_length_series_def sparse_rows_def get_covered_pos_def
      get_median_depth_def calculate_amplicon_median_depth_def statistics_median_def)


section \<open>The ambiguity analyzer\<close>

lemma N_positions_none:
  assumes "\<forall>c \<in> set seq. \<not> is_N c"
  shows "get_N_positions seq = []"
proof -
  have "filter (\<lambda>(i, letter). is_N letter) (enumerate 0 seq) = []"
    using assms by (auto simp: filter_empty_conv in_set_enumerate_eq)
  then show ?thesis
    by (simp add: get_N_positions_def)
qed

lemma largest_N_gap_clean:
  "\<forall>c \<in> set seq. \<not> is_N c \<Longrightarrow> get_largest_N_gap seq = Inr (int (length seq))"
  by (simp add: get_largest_N_gap_def N_positions_none)

lemma N_positions_all:
  assumes "\<forall>c \<in> set seq. is_N c"
  shows "get_N_positions seq = map int [0..<length seq]"
proof -
  have "filter (\<lambda>(i, letter). is_N letter) (enumerate 0 seq) = enumerate 0 seq"
    using assms by (auto simp: filter_id_conv in_set_enumerate_eq)
  moreover have "map (\<lambda>(i, letter). int i) (enumerate 0 seq) = map (int \<circ> fst) (enumerate 0 seq)"
    by (rule map_cong) auto
  moreover have "map (int \<circ> fst) (enumerate 0 seq) = map int (map fst (enumerate 0 seq))"
    by (simp only: map_map)
  moreover have "map fst (enumerate 0 seq) = [0..<length seq]"
    by (simp only: map_fst_enumerate add_0)
  ultimately show ?thesis
    by (simp only: get_N_positions_def)
qed

lemma sorted_last_Max:
  "sorted ys \<Longrightarrow> ys \<noteq> [] \<Longrightarrow> last ys = Max (set (ys::int list))"
proof (induction ys)
  case Nil
  then show ?case by simp
next
  case (Cons y ys)
  show ?case
  proof (cases "ys = []")
    case True
    then show ?thesis by simp
  next
    case False
    with Cons have IH: "last ys = Max (set ys)" by simp
    from False have "Max (set ys) \<in> set ys" by simp
    with Cons.prems(1) have "y \<le> Max (set ys)" by (simp del: Max_in)
    with False IH show ?thesis by (simp add: max_def)
  qed
qed

lemma last_sort_Max: "xs \<noteq> [] \<Longrightarrow> last (sort xs) = Max (set (xs::int list))"
proof -
  assume "xs \<noteq> []"
  then have "sort xs \<noteq> []"
    by (metis length_sort length_0_conv)
  with sorted_last_Max [of "sort xs"] show ?thesis by simp
qed

lemma all_N_gaps:
  "map (\<lambda>(i, j). j - i) (zip (0 # map int [0..<n]) (map int [0..<n] @ [int n]))
     = 0 # replicate n 1"
proof (rule nth_equalityI)
  show "length (map (\<lambda>(i, j). j - i) (zip (0 # map int [0..<n]) (map int [0..<n] @ [int n])))
          = length (0 # replicate n (1::int))"
    by simp
next
  fix i
  assume "i < length (map (\<lambda>(i, j). j - i) (zip (0 # map int [0..<n]) (map int [0..<n] @ [int n])))"
  then have i: "i < Suc n" by simp
  have r: "(map int [0..<n] @ [int n]) ! i = int i"
    using i by (cases "i < n") (simp_all add: nth_append less_Suc_eq)
  have l: "(0 # map int [0..<n]) ! i = (if i = 0 then 0 else int (i - 1))"
    using i by (cases i) simp_all
  have "(0 # replicate n (1::int)) ! i = (if i = 0 then 0 else 1)"
    using i by (cases i) simp_all
  with l r i show "map (\<lambda>(i, j). j - i) (zip (0 # map int [0..<n]) (map int [0..<n] @ [int n])) ! i
          = (0 # replicate n 1) ! i"
    by (cases i) simp_all
qed

lemma all_N_gap_is_one:
  assumes "seq \<noteq> []" and "\<forall>c \<in> set seq. is_N c"
  shows "get_largest_N_gap seq = Inr 1"
proof -
  let ?n = "length seq"
  have gaps: "map (\<lambda>(i, j). j - i)
           (zip (butlast ([0] @ get_N_positions seq @ [int ?n])) (tl ([0] @ get_N_positions seq @ [int ?n])))
         = 0 # replicate ?n 1"
    by (simp add: N_positions_all [OF assms(2)] butlast_append all_N_gaps del: upt_Suc)
  from assms(1) have "set (replicate ?n (1::int)) = {1}" by simp
  then have "Max (set (0 # replicate ?n (1::int))) = 1" by simp
  then have "last (sort (0 # replicate ?n (1::int))) = 1"
    by (simp only: last_sort_Max [of "0 # replicate ?n 1"] list.distinct not_False_eq_True)
  with gaps show ?thesis
    by (simp only: get_largest_N_gap_def Let_def list.distinct if_False)
qed

text \<open>
  C6. The first half of the claim holds (\<open>largest_N_gap_clean\<close>). The second half asks for
  0 on a sequence made only of ambiguity markers, which has no N-free run; the code
  returns 1, the distance between two neighbouring N positions, on every such non-empty
  sequence (\<open>all_N_gap_is_one\<close>); here on four N.
\<close>

theorem largest_N_gap_all_N:
  "get_largest_N_gap ''NNNN'' = Inr 1"
  by (simp add: get_largest_N_gap_def get_N_positions_def is_N_def enumerate_eq_zip)

section \<open>The metrics composer\<close>

lemma round_half_even_below:
  "of_int n \<le> y \<Longrightarrow> y < of_int n + 1 / 2 \<Longrightarrow> round_half_even y = n"
proof -
  assume a: "of_int n \<le> y" "y < of_int n + 1 / 2"
  then have "\<lfloor>y\<rfloor> = n" by (intro floor_unique) simp_all
  with a show ?thesis by (simp add: round_half_even_def)
qed

lemma round_half_even_above:
  "of_int n + 1 / 2 < y \<Longrightarrow> y \<le> of_int n + 1 \<Longrightarrow> round_half_even y = n + 1"
proof (cases "y = of_int n + 1")
  case True
  then have "y = of_int (n + 1)" by simp
  then show ?thesis by (simp add: round_half_even_def del: of_int_add)
next
  case False
  assume a: "of_int n + 1 / 2 < y" "y \<le> of_int n + 1"
  with False have "\<lfloor>y\<rfloor> = n" by (intro floor_unique) simp_all
  with a show ?thesis by (simp add: round_half_even_def)
qed

lemma format_2f_of_int: "format_2f (of_int n) = of_int n"
proof -
  have "round_half_even (of_int (n * 100)) = n * 100"
    by (rule round_half_even_below) simp_all
  then show ?thesis by (simp add: format_2f_def)
qed

lemma format_2f_0: "format_2f 0 = 0"
  using format_2f_of_int [of 0] by simp

lemma format_2f_numeral: "format_2f (numeral k) = numeral k"
  using format_2f_of_int [of "numeral k"] by simp

lemma format_2f_50_3: "format_2f (50 / 3) = 1667 / 100"
proof -
  have "round_half_even (5000 / 3) = 1666 + 1"
    by (rule round_half_even_above) simp_all
  then show ?thesis by (simp add: format_2f_def)
qed

lemmas run_defs = main_def read_primers_def primers_to_amplicons_def
  positive_orientation_primers_def amplicon_region_def bind_def dict_set_def dict_get_def
  py_index_def py_truediv_def get_covered_pos_def get_amplicon_covered_pos_def
  get_median_depth_def calculate_amplicon_median_depth_def statistics_median_def
  unknown_base_calcs_def get_pct_N_bases_def get_largest_N_gap_def get_N_positions_def
  is_N_def enumerate_eq_zip

lemma main_small_run: "main small_run = Inr small_run_qc_line"
  by (simp add: small_run_def small_run_qc_line_def run_defs format_2f_numeral format_2f_50_3)



lemma map_of_add_amplicon_fields:
  "(\<And>n. k \<noteq> ''amplicon_'' @ n @ ''_median_depth'') \<Longrightarrow>
     map_of (add_amplicon_fields avs qc_line) k = map_of qc_line k"
  by (induction avs arbitrary: qc_line) (auto simp: map_of_dict_set)

lemma unknown_base_calcs_empty: "unknown_base_calcs [] = Inr (0, 0)"
  by (simp add: unknown_base_calcs_def)

lemma add_amplicon_fields_keys:
  "fst ` set (add_amplicon_fields avs qc_line)
     \<subseteq> fst ` set qc_line \<union> {''amplicon_'' @ n @ ''_median_depth'' |n. True}"
proof (induction avs arbitrary: qc_line)
  case Nil
  show ?case by simp
next
  case (Cons a avs)
  obtain n d where a: "a = (n, d)" by (cases a)
  show ?case
    using Cons.IH [of "dict_set (''amplicon_'' @ n @ ''_median_depth'') (Num d) qc_line"]
    by (auto simp: a keys_dict_set)
qed

lemma main_never_writes_qc_pass:
  assumes "main args = Inr qc_line"
  shows "''qc_pass'' \<notin> fst ` set qc_line"
proof -
  from assms obtain avs base where
    "qc_line = add_amplicon_fields avs base"
    "fst ` set base = {''sample_name'', ''pct_N_bases'', ''pct_covered_bases'',
       ''pct_amplicon_covered_bases'', ''longest_no_N_run'', ''num_aligned_reads'',
       ''median_depth_coverage'', ''fasta'', ''bam''}"
    by (auto simp: main_def bind_Inr_iff)
  with add_amplicon_fields_keys [of avs base] show ?thesis
    by auto
qed

lemma pct_N_bases_unguarded: "get_pct_N_bases [] = Inl ZeroDivisionError"
  by (simp add: get_pct_N_bases_def get_N_positions_def py_truediv_def bind_def)

text \<open>
  C1. The claim asks for a \<open>qc_pass\<close> field in the composed record. \<^verbatim>\<open>main\<close> assigns
  \<^verbatim>\<open>qc_pass = "FALSE"\<close> to a local variable and never stores it in \<^verbatim>\<open>qc_line\<close>: no
  record that it composes has such a key (\<open>main_never_writes_qc_pass\<close>). Here, the header
  of a complete run.
\<close>

theorem qc_line_header_without_qc_pass:
  "map_sum id (map fst) (main small_run) =
     Inr [''sample_name'', ''pct_N_bases'', ''pct_covered_bases'', ''pct_amplicon_covered_bases'',
          ''longest_no_N_run'', ''num_aligned_reads'', ''median_depth_coverage'', ''fasta'', ''bam'',
          ''amplicon_1_median_depth'']"
  by (simp add: small_run_def run_defs)






















text \<open>
  C7. Whenever the run completes for some consensus sequence, the same run with the
  zero-length consensus completes as well, and its record reports 0 for the percentage of
  N bases and 0 for the longest N-free run: the guard on the sequence length keeps both
  metrics at their initial value, and no division takes place.
\<close>

theorem empty_consensus_reports_zero:
  assumes "main args = Inr qc_line"
  shows "\<exists>qc_line'. main (args\<lparr>ext_fasta_seq := []\<rparr>) = Inr qc_line'
           \<and> map_of qc_line' ''pct_N_bases'' = Some (Fixed2 0)
           \<and> map_of qc_line' ''longest_no_N_run'' = Some (Num (PyInt 0))"
proof -
  from assms obtain primers amplicons region cf dc acf avs where
    steps: "read_primers (primer_bed_rows args) (primer_pairs_rows args) CHR ''_'' 2 = Inr primers"
      "primers_to_amplicons primers = Inr amplicons"
      "amplicon_region primers = Inr region"
      "py_truediv (get_covered_pos (ext_depth_pos args) (arg_min_depth args)) (ext_ref_length args) = Inr cf"
      "get_median_depth (ext_depth_pos args) = Inr dc"
      "(case get_amplicon_covered_pos (ext_depth_pos args) (arg_min_depth args) (fst region) (snd region) of
          (depth_amplicon_covered_bases, amplicon_length) \<Rightarrow>
             py_truediv depth_amplicon_covered_bases amplicon_length) = Inr acf"
      "amplicon_depths_loop (ext_depth_pos args) amplicons [] = Inr avs"
    by (auto simp: main_def bind_Inr_iff)
  let ?line = "add_amplicon_fields avs
             [(''sample_name'', Str (arg_sample args)),
              (''pct_N_bases'', Fixed2 0),
              (''pct_covered_bases'', Fixed2 (format_2f (cf * 100))),
              (''pct_amplicon_covered_bases'', Fixed2 (format_2f (acf * 100))),
              (''longest_no_N_run'', Num (PyInt 0)),
              (''num_aligned_reads'', Str (ext_num_reads args)),
              (''median_depth_coverage'', Num dc),
              (''fasta'', Str (arg_fasta args)),
              (''bam'', Str (arg_bam args))]"
  have "main (args\<lparr>ext_fasta_seq := []\<rparr>) = Inr ?line"
    using steps by (cases region) (simp add: main_def bind_def unknown_base_calcs_empty format_2f_0)
  moreover have "map_of ?line ''pct_N_bases'' = Some (Fixed2 0)"
    by (simp add: map_of_add_amplicon_fields)
  moreover have "map_of ?line ''longest_no_N_run'' = Some (Num (PyInt 0))"
    by (simp add: map_of_add_amplicon_fields)
  ultimately show ?thesis by blast
qed

theorem empty_consensus_reports_zero_witness:
  "main small_run = Inr small_run_qc_line
   \<and> (\<exists>qc_line'. main (small_run\<lparr>ext_fasta_seq := []\<rparr>) = Inr qc_line'
           \<and> map_of qc_line' ''pct_N_bases'' = Some (Fixed2 0)
           \<and> map_of qc_line' ''longest_no_N_run'' = Some (Num (PyInt 0)))"
  using empty_consensus_reports_zero [OF main_small_run] main_small_run
  by simp

end
